theory Spec2Isabelle
  imports Complex_Main "HOL-Library.Multiset"
begin

section \<open>Session and activity analytics of the wellness front end\<close>

text \<open>
  The development embeds the application context of
  \<^verbatim>\<open>frontend/src/components/Layout.tsx\<close> (the \<^verbatim>\<open>AppProvider\<close> component):
  its analytics callbacks (\<^verbatim>\<open>getStreakInfo\<close>, \<^verbatim>\<open>getActivityStats\<close>,
  \<^verbatim>\<open>getCategoryStats\<close>, \<^verbatim>\<open>getTimeBasedStats\<close>,
  \<^verbatim>\<open>getRecommendationStats\<close>), the activity life cycle
  (\<^verbatim>\<open>startActivity\<close>, \<^verbatim>\<open>completeActivity\<close>) and
  \<^verbatim>\<open>initializeSession\<close>.

  Conventions of the embedding.
  \<^item> A date string (\<^verbatim>\<open>start_time\<close>, \<^verbatim>\<open>completed_at\<close>) is identified with the time
    value \<^verbatim>\<open>new Date(s).getTime()\<close> it parses to, an integer number of milliseconds since
    the epoch. Only valid date strings are covered; the code writes its own with
    \<^verbatim>\<open>toISOString()\<close>.
  \<^item> Counts and durations are integers. A quotient is a \<open>jsnum\<close>: an exact rational where
    the divisor is not zero (the rounding of a double is not modelled), and the IEEE special
    values where it is zero.
  \<^item> An object used as a dictionary is an association list in insertion order. The callbacks
    as functions of the log look up own keys only; the part on the shared objects gives them
    with what a key inherits from \<^verbatim>\<open>Object.prototype\<close>.
  \<^item> React state is passed explicitly: each operation runs on the state committed by the
    previous one.
\<close>

subsection \<open>Data model (\<^verbatim>\<open>types\<close>)\<close>

record ActivityHistoryItem =
  id_item :: string
  activity_id :: string
  activity_title :: string
  start_time :: int
  completed_at :: "int option"
  completed :: bool
  progress :: rat
  category :: string
  points :: int
  completed_steps :: "nat list"
  mood_level :: "rat option"
  duration :: int

record Activity =
  id_act :: string
  title :: string
  description :: string
  duration_act :: int
  difficulty :: string
  categories :: "string list"
  steps :: "string list"
  benefits :: "string list"
  category_act :: "string option"

record UserPreferences =
  difficulty_level :: string
  preferred_duration :: string
  favorite_activities :: "string list"
  categories_pref :: "string list"
  notifications :: bool

subsection \<open>JavaScript numbers and dictionaries\<close>

datatype jsnum = Num rat | NaN | PosInfinity | NegInfinity

text \<open>\<^verbatim>\<open>a / b\<close> on two integer-valued numbers.\<close>

definition js_div :: "int \<Rightarrow> int \<Rightarrow> jsnum" where
  "js_div a b =
     (if b = 0 then (if a = 0 then NaN else if 0 < a then PosInfinity else NegInfinity)
      else Num (rat_of_int a / rat_of_int b))"

text \<open>\<^verbatim>\<open>x * 100\<close>.\<close>

fun js_times100 :: "jsnum \<Rightarrow> jsnum" where
  "js_times100 (Num r) = Num (r * 100)"
| "js_times100 NaN = NaN"
| "js_times100 PosInfinity = PosInfinity"
| "js_times100 NegInfinity = NegInfinity"

text \<open>\<^verbatim>\<open>obj[k]\<close> and \<^verbatim>\<open>obj[k] = v\<close>: a new key is appended, an old key keeps its place.\<close>

definition obj_get :: "(string \<times> 'v) list \<Rightarrow> string \<Rightarrow> 'v option" where
  "obj_get obj k = map_of obj k"

fun obj_set :: "(string \<times> 'v) list \<Rightarrow> string \<Rightarrow> 'v \<Rightarrow> (string \<times> 'v) list" where
  "obj_set [] k v = [(k, v)]"
| "obj_set ((k', v') # kvs) k v =
     (if k' = k then (k, v) # kvs else (k', v') # obj_set kvs k v)"

subsection \<open>Decimal strings\<close>

definition digit_char :: "nat \<Rightarrow> char" where
  "digit_char d = ''0123456789'' ! d"

fun nat_to_string :: "nat \<Rightarrow> string" where
  "nat_to_string n = (if n < 10 then [digit_char n] else nat_to_string (n div 10) @ [digit_char (n mod 10)])"

declare nat_to_string.simps [simp del]

text \<open>\<^verbatim>\<open>n.toString()\<close> and \<^verbatim>\<open>`${n}`\<close> for an integer \<open>n\<close>.\<close>

definition int_to_string :: "int \<Rightarrow> string" where
  "int_to_string i = (if i < 0 then CHR ''-'' # nat_to_string (nat (- i)) else nat_to_string (nat i))"

definition is_digit :: "char \<Rightarrow> bool" where
  "is_digit c = (48 \<le> (of_char c :: nat) \<and> (of_char c :: nat) \<le> 57)"

definition digits_value :: "string \<Rightarrow> nat" where
  "digits_value ds = foldl (\<lambda>acc c. 10 * acc + (of_char c - 48)) 0 ds"

text \<open>
  An array index is the canonical decimal string of a number below \<open>2^32 - 1\<close>.
  \<^verbatim>\<open>Object.entries\<close> lists such keys first, in ascending numeric order, and the other keys
  after them in insertion order.
\<close>

definition array_index :: "string \<Rightarrow> nat option" where
  "array_index k =
     (if k \<noteq> [] \<and> list_all is_digit k \<and> (if hd k = CHR ''0'' then k = ''0'' else True)
         \<and> digits_value k < 2 ^ 32 - 1
      then Some (digits_value k) else None)"

definition entries :: "(string \<times> 'v) list \<Rightarrow> (string \<times> 'v) list" where
  "entries obj =
     sort_key (\<lambda>(k, v). the (array_index k)) (filter (\<lambda>(k, v). array_index k \<noteq> None) obj)
     @ filter (\<lambda>(k, v). array_index k = None) obj"

text \<open>\<^verbatim>\<open>sorted[0]?.[0] || fallback\<close>: the key of the first entry, unless there is none or it
  is the empty string.\<close>

definition first_key_or :: "string \<Rightarrow> (string \<times> 'v) list \<Rightarrow> string" where
  "first_key_or fallback es =
     (case es of [] \<Rightarrow> fallback | (k, v) # rest \<Rightarrow> if k = [] then fallback else k)"

text \<open>\<^verbatim>\<open>title.split(' ')[0]\<close>: the text before the first space.\<close>

definition first_word :: "string \<Rightarrow> string" where
  "first_word s = takeWhile (\<lambda>c. c \<noteq> CHR '' '') s"

subsection \<open>\<^verbatim>\<open>getStreakInfo\<close>\<close>

record StreakInfo =
  currentStreak :: nat
  longestStreak :: nat
  lastActivityDate :: "int option"
  streakStartDate :: "int option"
  streakHistory :: "(string \<times> nat) list"

definition ms_per_day :: int where
  "ms_per_day = 1000 * 60 * 60 * 24"

text \<open>\<^verbatim>\<open>[...activityHistory].sort((a, b) => time(b) - time(a))\<close>: a stable sort, latest first.\<close>

definition sortedActivities :: "ActivityHistoryItem list \<Rightarrow> ActivityHistoryItem list" where
  "sortedActivities activityHistory = sort_key (\<lambda>a. - start_time a) activityHistory"

text \<open>The variables of the loop that the body reads or writes.\<close>

record streak_vars =
  sv_currentStreak :: nat
  sv_longestStreak :: nat
  sv_streakStartDate :: "int option"
  sv_previousDate :: int

text \<open>\<^verbatim>\<open>Math.floor((previousDate.getTime() - activityDate.getTime()) / (1000*60*60*24))\<close>\<close>

definition dayDiff :: "int \<Rightarrow> int \<Rightarrow> int" where
  "dayDiff previousDate activityDate = (previousDate - activityDate) div ms_per_day"

definition streak_step :: "streak_vars \<Rightarrow> ActivityHistoryItem \<Rightarrow> streak_vars" where
  "streak_step v activity =
     (let activityDate = start_time activity;
          v1 = (if dayDiff (sv_previousDate v) activityDate \<le> 1
                then (let c = sv_currentStreak v + 1 in
                      if c > sv_longestStreak v
                      then v\<lparr>sv_currentStreak := c, sv_longestStreak := c,
                             sv_streakStartDate := Some (start_time activity)\<rparr>
                      else v\<lparr>sv_currentStreak := c\<rparr>)
                else v\<lparr>sv_currentStreak := 1\<rparr>)
      in v1\<lparr>sv_previousDate := activityDate\<rparr>)"

definition streak_loop :: "streak_vars \<Rightarrow> ActivityHistoryItem list \<Rightarrow> streak_vars" where
  "streak_loop v activities = foldl streak_step v activities"

definition streak_init :: "int \<Rightarrow> streak_vars" where
  "streak_init lastDate =
     \<lparr>sv_currentStreak = 0, sv_longestStreak = 0, sv_streakStartDate = None,
      sv_previousDate = lastDate\<rparr>"

text \<open>
  The body of the callback after the sort. \<^verbatim>\<open>streakHistory\<close> is created as the empty array
  and is not written afterwards; \<^verbatim>\<open>today\<close> and \<^verbatim>\<open>currentDate\<close> are created and never read.
\<close>

definition streak_of_sorted :: "ActivityHistoryItem list \<Rightarrow> StreakInfo" where
  "streak_of_sorted acts =
     (case acts of
        [] \<Rightarrow> \<lparr>currentStreak = 0, longestStreak = 0, lastActivityDate = None,
               streakStartDate = None, streakHistory = []\<rparr>
      | first # rest \<Rightarrow>
          (let v = streak_loop (streak_init (start_time first)) (first # rest)
           in \<lparr>currentStreak = sv_currentStreak v, longestStreak = sv_longestStreak v,
               lastActivityDate = Some (start_time first),
               streakStartDate = sv_streakStartDate v, streakHistory = []\<rparr>))"

definition getStreakInfo :: "ActivityHistoryItem list \<Rightarrow> StreakInfo" where
  "getStreakInfo activityHistory = streak_of_sorted (sortedActivities activityHistory)"

subsection \<open>\<^verbatim>\<open>getActivityStats\<close>\<close>

record ActivityStats =
  totalActivities :: nat
  completedActivities :: nat
  totalDuration_all :: int
  averageDuration_all :: jsnum
  mostFrequentCategory_all :: string
  completionRate_all :: jsnum
  longestStreak_all :: nat
  currentStreak_all :: nat
  totalPoints :: int
  averagePointsPerActivity :: jsnum

text \<open>\<^verbatim>\<open>counts[k] = (counts[k] || 0) + 1\<close>\<close>

definition bump :: "(string \<times> nat) list \<Rightarrow> string \<Rightarrow> (string \<times> nat) list" where
  "bump counts k = obj_set counts k ((case obj_get counts k of None \<Rightarrow> 0 | Some n \<Rightarrow> n) + 1)"

text \<open>\<^verbatim>\<open>Object.entries(counts).sort(([, a], [, b]) => b - a)\<close>\<close>

definition entries_by_count_desc :: "('v \<Rightarrow> nat) \<Rightarrow> (string \<times> 'v) list \<Rightarrow> (string \<times> 'v) list" where
  "entries_by_count_desc cnt obj = sort_key (\<lambda>(k, v). - int (cnt v)) (entries obj)"

definition getActivityStats :: "ActivityHistoryItem list \<Rightarrow> ActivityStats" where
  "getActivityStats activityHistory =
     (let completedList = filter completed activityHistory;
          total = foldl (\<lambda>sum activity. sum + duration activity) 0 completedList;
          categoryCounts = foldl (\<lambda>counts activity. bump counts (category activity)) [] completedList;
          streak = getStreakInfo activityHistory;
          pts = foldl (\<lambda>sum activity. sum + points activity) 0 completedList
      in \<lparr>totalActivities = length activityHistory,
          completedActivities = length completedList,
          totalDuration_all = total,
          averageDuration_all =
            (if length completedList \<noteq> 0 then js_div total (int (length completedList)) else Num 0),
          mostFrequentCategory_all =
            first_key_or ''None'' (entries_by_count_desc (\<lambda>n. n) categoryCounts),
          completionRate_all =
            (if length activityHistory \<noteq> 0
             then js_times100 (js_div (int (length completedList)) (int (length activityHistory)))
             else Num 0),
          longestStreak_all = longestStreak streak,
          currentStreak_all = currentStreak streak,
          totalPoints = pts,
          averagePointsPerActivity =
            (if length completedList \<noteq> 0 then js_div pts (int (length completedList)) else Num 0)\<rparr>)"

subsection \<open>\<^verbatim>\<open>getCategoryStats\<close>\<close>

record category_entry =
  count :: nat
  totalDuration :: int
  averageDuration :: jsnum
  completionRate :: jsnum
  lastActivity :: "int option"

record CategoryStats =
  categories_cs :: "(string \<times> category_entry) list"
  mostFrequentCategory :: string
  leastFrequentCategory :: string
  categoryDistribution :: "(string \<times> jsnum) list"

text \<open>The body of the \<^verbatim>\<open>forEach\<close>; the key is the first word of the title.\<close>

definition category_step ::
  "(string \<times> category_entry) list \<Rightarrow> ActivityHistoryItem \<Rightarrow> (string \<times> category_entry) list" where
  "category_step categoryStats activity =
     (let cat = first_word (activity_title activity);
          e0 = (case obj_get categoryStats cat of
                  None \<Rightarrow> \<lparr>count = 0, totalDuration = 0, averageDuration = Num 0,
                           completionRate = Num 0, lastActivity = None\<rparr>
                | Some e \<Rightarrow> e);
          c = count e0 + 1;
          d = totalDuration e0 + duration activity
      in obj_set categoryStats cat
           \<lparr>count = c, totalDuration = d, averageDuration = js_div d (int c),
            completionRate = js_div (if completed activity then 1 else 0) (int c),
            lastActivity = Some (start_time activity)\<rparr>)"

text \<open>\<^verbatim>\<open>sorted[sorted.length - 1]?.[0] || fallback\<close>\<close>

definition last_key_or :: "string \<Rightarrow> (string \<times> 'v) list \<Rightarrow> string" where
  "last_key_or fallback es =
     (case rev es of [] \<Rightarrow> fallback | (k, v) # rest \<Rightarrow> if k = [] then fallback else k)"

definition getCategoryStats :: "ActivityHistoryItem list \<Rightarrow> CategoryStats" where
  "getCategoryStats activityHistory =
     (let categoryStats = foldl category_step [] activityHistory;
          totalCount = length activityHistory;
          distribution = map (\<lambda>(cat, stats). (cat, js_times100 (js_div (int (count stats)) (int totalCount))))
                             (entries categoryStats);
          sortedCategories = entries_by_count_desc count categoryStats
      in \<lparr>categories_cs = categoryStats,
          mostFrequentCategory = first_key_or ''None'' sortedCategories,
          leastFrequentCategory = last_key_or ''None'' sortedCategories,
          categoryDistribution = distribution\<rparr>)"

subsection \<open>The platform's \<^verbatim>\<open>Date\<close> methods\<close>

text \<open>
  The callbacks below read a date through methods of the host's \<^verbatim>\<open>Date\<close> object, most of
  them in the local time zone. They are not code of this repository and are a parameter of
  the model; each takes the time value of the date.
\<close>

record date_api =
  toISOString_date :: "int \<Rightarrow> string"
  getFullYear :: "int \<Rightarrow> int"
  getMonth :: "int \<Rightarrow> int"
  getDate :: "int \<Rightarrow> int"
  getDay :: "int \<Rightarrow> int"
  getHours :: "int \<Rightarrow> int"
  weekday_long :: "int \<Rightarrow> string"

text \<open>\<^verbatim>\<open>hours < 12 ? 'morning' : hours < 17 ? 'afternoon' : 'evening'\<close>\<close>

definition timeOfDay :: "date_api \<Rightarrow> int \<Rightarrow> string" where
  "timeOfDay api t =
     (if getHours api t < 12 then ''morning''
      else if getHours api t < 17 then ''afternoon'' else ''evening'')"

subsection \<open>\<^verbatim>\<open>getTimeBasedStats\<close>\<close>

record daily_entry =
  count_d :: nat
  duration_d :: int
  categories_d :: "string list"

record weekly_entry =
  count_w :: nat
  duration_w :: int
  averageDuration_w :: jsnum

record monthly_entry =
  count_m :: nat
  duration_m :: int
  mostActiveDay_m :: string

record TimeBasedStats =
  dailyStats :: "(string \<times> daily_entry) list"
  weeklyStats :: "(string \<times> weekly_entry) list"
  monthlyStats :: "(string \<times> monthly_entry) list"
  bestTimeOfDay :: string
  mostActiveDay :: string

record time_vars =
  tv_dailyStats :: "(string \<times> daily_entry) list"
  tv_weeklyStats :: "(string \<times> weekly_entry) list"
  tv_monthlyStats :: "(string \<times> monthly_entry) list"
  tv_timeOfDayCounts :: "(string \<times> nat) list"
  tv_dayOfWeekCounts :: "(string \<times> nat) list"

text \<open>\<^verbatim>\<open>Math.ceil(n / 7)\<close> for an integer \<open>n\<close>.\<close>

definition ceil_div7 :: "int \<Rightarrow> int" where
  "ceil_div7 n = - ((- n) div 7)"

definition weekKey :: "date_api \<Rightarrow> int \<Rightarrow> string" where
  "weekKey api t =
     int_to_string (getFullYear api t) @ ''-W'' @ int_to_string (ceil_div7 (getDate api t + getDay api t))"

definition monthKey :: "date_api \<Rightarrow> int \<Rightarrow> string" where
  "monthKey api t = int_to_string (getFullYear api t) @ ''-'' @ int_to_string (getMonth api t + 1)"

definition time_step :: "date_api \<Rightarrow> time_vars \<Rightarrow> ActivityHistoryItem \<Rightarrow> time_vars" where
  "time_step api v activity =
     (let t = start_time activity;
          dayKey = toISOString_date api t;
          wk = weekKey api t;
          mk = monthKey api t;
          cat = first_word (activity_title activity);
          d0 = (case obj_get (tv_dailyStats v) dayKey of
                  None \<Rightarrow> \<lparr>count_d = 0, duration_d = 0, categories_d = []\<rparr> | Some e \<Rightarrow> e);
          d1 = \<lparr>count_d = count_d d0 + 1, duration_d = duration_d d0 + duration activity,
                categories_d = (if cat \<in> set (categories_d d0) then categories_d d0
                                else categories_d d0 @ [cat])\<rparr>;
          w0 = (case obj_get (tv_weeklyStats v) wk of
                  None \<Rightarrow> \<lparr>count_w = 0, duration_w = 0, averageDuration_w = Num 0\<rparr> | Some e \<Rightarrow> e);
          w1 = \<lparr>count_w = count_w w0 + 1, duration_w = duration_w w0 + duration activity,
                averageDuration_w = js_div (duration_w w0 + duration activity) (int (count_w w0 + 1))\<rparr>;
          m0 = (case obj_get (tv_monthlyStats v) mk of
                  None \<Rightarrow> \<lparr>count_m = 0, duration_m = 0, mostActiveDay_m = []\<rparr> | Some e \<Rightarrow> e);
          m1 = m0\<lparr>count_m := count_m m0 + 1, duration_m := duration_m m0 + duration activity\<rparr>
      in \<lparr>tv_dailyStats = obj_set (tv_dailyStats v) dayKey d1,
          tv_weeklyStats = obj_set (tv_weeklyStats v) wk w1,
          tv_monthlyStats = obj_set (tv_monthlyStats v) mk m1,
          tv_timeOfDayCounts = bump (tv_timeOfDayCounts v) (timeOfDay api t),
          tv_dayOfWeekCounts = bump (tv_dayOfWeekCounts v) (weekday_long api t)\<rparr>)"

definition getTimeBasedStats :: "date_api \<Rightarrow> ActivityHistoryItem list \<Rightarrow> TimeBasedStats" where
  "getTimeBasedStats api activityHistory =
     (let v = foldl (time_step api)
                \<lparr>tv_dailyStats = [], tv_weeklyStats = [], tv_monthlyStats = [],
                 tv_timeOfDayCounts = [], tv_dayOfWeekCounts = []\<rparr> activityHistory
      in \<lparr>dailyStats = tv_dailyStats v, weeklyStats = tv_weeklyStats v,
          monthlyStats = tv_monthlyStats v,
          bestTimeOfDay =
            first_key_or ''unknown'' (entries_by_count_desc (\<lambda>n. n) (tv_timeOfDayCounts v)),
          mostActiveDay =
            first_key_or ''unknown'' (entries_by_count_desc (\<lambda>n. n) (tv_dayOfWeekCounts v))\<rparr>)"

subsection \<open>\<^verbatim>\<open>getRecommendationStats\<close>\<close>

record pref_entry =
  recommended :: nat
  accepted :: nat
  accuracy :: jsnum

record RecommendationStats =
  totalRecommendations :: nat
  acceptedRecommendations :: nat
  recommendationAccuracy :: jsnum
  categoryPreferences :: "(string \<times> pref_entry) list"
  timeBasedPreferences :: "(string \<times> pref_entry) list"

text \<open>The update of one bucket: create it if absent, count the item, recompute the accuracy.\<close>

definition pref_update :: "(string \<times> pref_entry) list \<Rightarrow> string \<Rightarrow> bool \<Rightarrow> (string \<times> pref_entry) list" where
  "pref_update prefs k done =
     (let e0 = (case obj_get prefs k of
                  None \<Rightarrow> \<lparr>recommended = 0, accepted = 0, accuracy = Num 0\<rparr> | Some e \<Rightarrow> e);
          r = recommended e0 + 1;
          a = (if done then accepted e0 + 1 else accepted e0)
      in obj_set prefs k
           \<lparr>recommended = r, accepted = a, accuracy = js_times100 (js_div (int a) (int r))\<rparr>)"

record rec_vars =
  rv_categoryPreferences :: "(string \<times> pref_entry) list"
  rv_timeBasedPreferences :: "(string \<times> pref_entry) list"
  rv_totalRecommendations :: nat
  rv_acceptedRecommendations :: nat

definition rec_step :: "date_api \<Rightarrow> rec_vars \<Rightarrow> ActivityHistoryItem \<Rightarrow> rec_vars" where
  "rec_step api v activity =
     \<lparr>rv_categoryPreferences =
        pref_update (rv_categoryPreferences v) (first_word (activity_title activity)) (completed activity),
      rv_timeBasedPreferences =
        pref_update (rv_timeBasedPreferences v) (timeOfDay api (start_time activity)) (completed activity),
      rv_totalRecommendations = rv_totalRecommendations v + 1,
      rv_acceptedRecommendations =
        (if completed activity then rv_acceptedRecommendations v + 1 else rv_acceptedRecommendations v)\<rparr>"

definition getRecommendationStats :: "date_api \<Rightarrow> ActivityHistoryItem list \<Rightarrow> RecommendationStats" where
  "getRecommendationStats api activityHistory =
     (let v = foldl (rec_step api)
                \<lparr>rv_categoryPreferences = [], rv_timeBasedPreferences = [],
                 rv_totalRecommendations = 0, rv_acceptedRecommendations = 0\<rparr> activityHistory
      in \<lparr>totalRecommendations = rv_totalRecommendations v,
          acceptedRecommendations = rv_acceptedRecommendations v,
          recommendationAccuracy =
            js_times100 (js_div (int (rv_acceptedRecommendations v)) (int (rv_totalRecommendations v))),
          categoryPreferences = rv_categoryPreferences v,
          timeBasedPreferences = rv_timeBasedPreferences v\<rparr>)"

subsection \<open>Arrays in a store\<close>





subsection \<open>The callbacks among the shared objects\<close>












subsubsection \<open>\<^verbatim>\<open>getStreakInfo\<close>\<close>


subsubsection \<open>\<^verbatim>\<open>getCategoryStats\<close>\<close>





subsubsection \<open>\<^verbatim>\<open>getRecommendationStats\<close>\<close>





subsubsection \<open>\<^verbatim>\<open>getTimeBasedStats\<close>\<close>





subsubsection \<open>\<^verbatim>\<open>getActivityStats\<close>\<close>



subsubsection \<open>Keys that are not inherited\<close>



subsection \<open>Application state and its environment\<close>

text \<open>
  A network call either resolves with a value or rejects; the rejection carries the message
  when the thrown value is an \<^verbatim>\<open>Error\<close>.
\<close>

datatype 'a response = Resolved 'a | Rejected "string option"

record SessionResponse =
  session_id :: string
  user_id :: string
  preferences_sr :: UserPreferences
  activity_history :: "ActivityHistoryItem list"

text \<open>A stored item that is present and not empty: what \<^verbatim>\<open>JSON.parse\<close> makes of it.\<close>

datatype 'a stored = Parsed 'a | Malformed

record local_storage =
  ls_sessionId :: "string option"
  ls_activityHistory :: "ActivityHistoryItem list stored option"
  ls_activityProgress :: "(string \<times> rat) list stored option"
  ls_userPreferences :: "UserPreferences stored option"

text \<open>
  The remote API (\<^verbatim>\<open>services/api\<close>) and the clock are outside the component. The \<open>n\<close>-th
  request and the \<open>n\<close>-th reading of the clock are answered by the environment.
\<close>

record env =
  clock :: "nat \<Rightarrow> int"
  getActivity_api :: "nat \<Rightarrow> string \<Rightarrow> Activity option response"
  completeActivity_api :: "nat \<Rightarrow> string \<Rightarrow> string \<Rightarrow> int \<Rightarrow> unit response"
  getSession_api :: "nat \<Rightarrow> string \<Rightarrow> SessionResponse response"
  createSession_api :: "nat \<Rightarrow> string \<Rightarrow> string response"

record app_state =
  sessionId :: "string option"
  preferences :: UserPreferences
  activeActivity :: "Activity option"
  activityHistory :: "ActivityHistoryItem list"
  isLoading :: bool
  error :: "string option"
  activityProgress :: "(string \<times> rat) list"
  startTime :: "int option"
  completedSteps :: "string list"
  localStorage :: local_storage
  clock_reads :: nat
  requests :: nat

definition defaultPreferences :: UserPreferences where
  "defaultPreferences =
     \<lparr>difficulty_level = ''beginner'', preferred_duration = ''short'',
      favorite_activities = [], categories_pref = [], notifications = True\<rparr>"

text \<open>The state of a freshly mounted provider over a given local storage.\<close>

definition initial_state :: "local_storage \<Rightarrow> app_state" where
  "initial_state ls =
     \<lparr>sessionId = None, preferences = defaultPreferences, activeActivity = None,
      activityHistory = [], isLoading = True, error = None, activityProgress = [],
      startTime = None, completedSteps = [], localStorage = ls, clock_reads = 0, requests = 0\<rparr>"

text \<open>The \<^verbatim>\<open>catch\<close> and \<^verbatim>\<open>finally\<close> blocks shared by the operations.\<close>

definition fail_with :: "string \<Rightarrow> string option \<Rightarrow> app_state \<Rightarrow> app_state" where
  "fail_with fallback thrown s =
     s\<lparr>error := Some (case thrown of Some msg \<Rightarrow> msg | None \<Rightarrow> fallback), isLoading := False\<rparr>"

subsection \<open>\<^verbatim>\<open>startActivity\<close>\<close>

text \<open>\<^verbatim>\<open>activity.category || activity.categories[0] || 'general'\<close>\<close>

definition category_of :: "Activity \<Rightarrow> string" where
  "category_of activity =
     (case category_act activity of
        Some c \<Rightarrow> if c \<noteq> [] then c
                 else (case categories activity of
                         [] \<Rightarrow> ''general'' | c0 # cs \<Rightarrow> if c0 \<noteq> [] then c0 else ''general'')
      | None \<Rightarrow> (case categories activity of
                   [] \<Rightarrow> ''general'' | c0 # cs \<Rightarrow> if c0 \<noteq> [] then c0 else ''general''))"

definition start_record :: "Activity \<Rightarrow> int \<Rightarrow> int \<Rightarrow> ActivityHistoryItem" where
  "start_record activity started now =
     \<lparr>id_item = int_to_string now,
      activity_id = id_act activity,
      activity_title = title activity,
      start_time = started,
      completed_at = None,
      completed = False,
      progress = 0,
      category = category_of activity,
      points = 0,
      completed_steps = [],
      mood_level = None,
      duration = 0\<rparr>"

text \<open>
  Inside the provider the name \<^verbatim>\<open>startActivity\<close> is the provider's own constant, which
  shadows the function of the same name imported from \<^verbatim>\<open>services/api\<close>. The last
  statement of the \<^verbatim>\<open>try\<close> block, \<^verbatim>\<open>await startActivity(activityId)\<close>, is therefore a call
  of the operation itself. The operation need not return, and its result is an option.
\<close>

partial_function (option) startActivity :: "env \<Rightarrow> string \<Rightarrow> app_state \<Rightarrow> app_state option" where
  "startActivity e activityId s =
     (case getActivity_api e (requests s) activityId of
        Rejected thrown \<Rightarrow>
          Some (fail_with ''Failed to start activity'' thrown
                  (s\<lparr>isLoading := True, requests := requests s + 1\<rparr>))
      | Resolved None \<Rightarrow>
          Some (fail_with ''Failed to start activity'' (Some ''Activity not found'')
                  (s\<lparr>isLoading := True, requests := requests s + 1\<rparr>))
      | Resolved (Some activity) \<Rightarrow>
          Option.bind
            (startActivity e activityId
               (s\<lparr>isLoading := True,
                  requests := requests s + 1,
                  clock_reads := clock_reads s + 2,
                  startTime := Some (clock e (clock_reads s)),
                  activeActivity := Some activity,
                  completedSteps := [],
                  activityHistory :=
                    activityHistory s
                    @ [start_record activity (clock e (clock_reads s)) (clock e (clock_reads s + 1))]\<rparr>))
            (\<lambda>s'. Some (s'\<lparr>isLoading := False\<rparr>)))"

declare startActivity.simps [code]

subsection \<open>\<^verbatim>\<open>completeActivity\<close>\<close>

text \<open>\<^verbatim>\<open>Math.round(ms / 1000)\<close> for an integer \<open>ms\<close>: halves round up.\<close>

definition round_seconds :: "int \<Rightarrow> int" where
  "round_seconds ms = (ms + 500) div 1000"

text \<open>The record appended on completion; \<open>found\<close> is the history item the lookup returned.\<close>

definition completion_record ::
  "ActivityHistoryItem \<Rightarrow> int \<Rightarrow> int \<Rightarrow> int \<Rightarrow> rat \<Rightarrow> ActivityHistoryItem" where
  "completion_record found started ended now moodLevel =
     \<lparr>id_item = int_to_string now,
      activity_id = id_item found,
      activity_title = activity_title found,
      start_time = started,
      completed_at = Some ended,
      completed = True,
      progress = 1,
      category = category found,
      points = \<lfloor>moodLevel * 10\<rfloor>,
      completed_steps = [],
      mood_level = Some moodLevel,
      duration = round_seconds (ended - started)\<rparr>"

text \<open>\<^verbatim>\<open>localStorage.getItem('sessionId') || 'current-session'\<close>\<close>

definition stored_session_or_default :: "local_storage \<Rightarrow> string" where
  "stored_session_or_default ls =
     (case ls_sessionId ls of None \<Rightarrow> ''current-session''
      | Some sid \<Rightarrow> if sid = [] then ''current-session'' else sid)"

definition completeActivity :: "env \<Rightarrow> string \<Rightarrow> rat \<Rightarrow> app_state \<Rightarrow> app_state" where
  "completeActivity e activityId moodLevel s =
     (case (find (\<lambda>a. id_item a = activityId) (activityHistory s), startTime s) of
        (Some found, Some started) \<Rightarrow>
          (let ended = clock e (clock_reads s);
               durationInSeconds = round_seconds (ended - started)
           in case completeActivity_api e (requests s) activityId
                     (stored_session_or_default (localStorage s)) durationInSeconds of
                Rejected thrown \<Rightarrow>
                  fail_with ''Failed to complete activity'' thrown
                    (s\<lparr>isLoading := True, clock_reads := clock_reads s + 1,
                       requests := requests s + 1\<rparr>)
              | Resolved u \<Rightarrow>
                  s\<lparr>isLoading := False,
                    clock_reads := clock_reads s + 2,
                    requests := requests s + 1,
                    activityHistory :=
                      activityHistory s
                      @ [completion_record found started ended (clock e (clock_reads s + 1)) moodLevel],
                    activeActivity := None,
                    startTime := None,
                    completedSteps := []\<rparr>)
      | _ \<Rightarrow>
          fail_with ''Failed to complete activity'' (Some ''Activity not found or not started'')
            (s\<lparr>isLoading := True\<rparr>))"

subsection \<open>\<^verbatim>\<open>initializeSession\<close>\<close>

text \<open>
  \<^verbatim>\<open>loadSavedData\<close>: the three stored items are read in turn; a parse error abandons the
  rest and sets the error message.
\<close>

definition loadSavedData :: "app_state \<Rightarrow> app_state" where
  "loadSavedData s =
     (case ls_activityHistory (localStorage s) of
        Some Malformed \<Rightarrow> s\<lparr>error := Some ''Failed to load saved data''\<rparr>
      | h \<Rightarrow>
         (let s1 = (case h of Some (Parsed hist) \<Rightarrow> s\<lparr>activityHistory := hist\<rparr> | _ \<Rightarrow> s) in
          case ls_activityProgress (localStorage s) of
            Some Malformed \<Rightarrow> s1\<lparr>error := Some ''Failed to load saved data''\<rparr>
          | p \<Rightarrow>
             (let s2 = (case p of Some (Parsed prog) \<Rightarrow> s1\<lparr>activityProgress := prog\<rparr> | _ \<Rightarrow> s1) in
              case ls_userPreferences (localStorage s) of
                Some Malformed \<Rightarrow> s2\<lparr>error := Some ''Failed to load saved data''\<rparr>
              | Some (Parsed prefs) \<Rightarrow> s2\<lparr>preferences := prefs\<rparr>
              | None \<Rightarrow> s2)))"

definition initializeSession :: "env \<Rightarrow> app_state \<Rightarrow> app_state" where
  "initializeSession e s =
     (case (case ls_sessionId (localStorage s) of
              None \<Rightarrow> None | Some sid \<Rightarrow> if sid = [] then None else Some sid) of
        Some storedSessionId \<Rightarrow>
          (case getSession_api e (requests s) storedSessionId of
             Rejected thrown \<Rightarrow>
               fail_with ''Failed to initialize session'' thrown
                 (s\<lparr>isLoading := True, requests := requests s + 1\<rparr>)
           | Resolved session \<Rightarrow>
               (loadSavedData
                  (s\<lparr>isLoading := True, requests := requests s + 1,
                     sessionId := Some (session_id session),
                     preferences := preferences_sr session\<rparr>))\<lparr>isLoading := False\<rparr>)
      | None \<Rightarrow>
          (case createSession_api e (requests s)
                  (''user-'' @ int_to_string (clock e (clock_reads s))) of
             Rejected thrown \<Rightarrow>
               fail_with ''Failed to initialize session'' thrown
                 (s\<lparr>isLoading := True, clock_reads := clock_reads s + 1,
                    requests := requests s + 1\<rparr>)
           | Resolved newId \<Rightarrow>
               s\<lparr>isLoading := False, clock_reads := clock_reads s + 1,
                 requests := requests s + 1,
                 sessionId := Some newId,
                 localStorage := (localStorage s)\<lparr>ls_sessionId := Some newId\<rparr>\<rparr>))"

subsection \<open>Calendar days and runs of activities\<close>

text \<open>The calendar day of a time value in a time zone \<open>tz\<close> milliseconds ahead of UTC.\<close>

definition day_of :: "int \<Rightarrow> int \<Rightarrow> int" where
  "day_of tz t = (t + tz) div ms_per_day"

text \<open>Every step from one item to the next has a day difference of at most one.\<close>

fun close_chain :: "int \<Rightarrow> ActivityHistoryItem list \<Rightarrow> bool" where
  "close_chain previous [] = True"
| "close_chain previous (a # as) =
     (dayDiff previous (start_time a) \<le> 1 \<and> close_chain (start_time a) as)"

subsection \<open>The entry of a category\<close>

text \<open>The items of a log whose title starts with the word \<open>k\<close>, in the order of the log.\<close>

definition in_category :: "string \<Rightarrow> ActivityHistoryItem list \<Rightarrow> ActivityHistoryItem list" where
  "in_category k hist = filter (\<lambda>a. first_word (activity_title a) = k) hist"

text \<open>
  What the loop of \<^verbatim>\<open>getCategoryStats\<close> leaves in the entry of a category with the items
  \<open>ys\<close>: the completion rate is recomputed from the item at hand alone, so the last item
  decides it.
\<close>

definition entry_of :: "ActivityHistoryItem list \<Rightarrow> category_entry" where
  "entry_of ys =
     \<lparr>count = length ys, totalDuration = sum_list (map duration ys),
      averageDuration = js_div (sum_list (map duration ys)) (int (length ys)),
      completionRate = js_div (if completed (last ys) then 1 else 0) (int (length ys)),
      lastActivity = Some (start_time (last ys))\<rparr>"

subsection \<open>An instance of the \<^verbatim>\<open>Date\<close> methods: UTC\<close>






subsection \<open>Sample data\<close>

text \<open>A history item with the given id, title, category, start, completion flag and duration.\<close>

definition history_item ::
  "string \<Rightarrow> string \<Rightarrow> string \<Rightarrow> int \<Rightarrow> bool \<Rightarrow> int \<Rightarrow> ActivityHistoryItem" where
  "history_item i ttl cat t c d =
     \<lparr>id_item = i, activity_id = ''a1'', activity_title = ttl, start_time = t,
      completed_at = (if c then Some (t + d * 1000) else None), completed = c,
      progress = (if c then 1 else 0), category = cat, points = (if c then 30 else 0),
      completed_steps = [], mood_level = (if c then Some 3 else None), duration = d\<rparr>"

text \<open>Noon (UTC) of day \<open>d\<close> after the epoch.\<close>

definition noon :: "int \<Rightarrow> int" where
  "noon d = d * ms_per_day + 12 * 3600000"

text \<open>One walk at noon of each of the days \<open>ds\<close>.\<close>

definition walks_at_noon :: "int list \<Rightarrow> ActivityHistoryItem list" where
  "walks_at_noon ds = map (\<lambda>d. history_item (int_to_string d) ''Walk'' ''Physical'' (noon d) True 60) ds"

text \<open>Walks at noon of days 0 and 1, one at 23:00 of day 2 and one at 01:00 of day 4.\<close>

definition late_then_early :: "ActivityHistoryItem list" where
  "late_then_early =
     walks_at_noon [0, 1]
     @ [history_item ''2'' ''Walk'' ''Physical'' (2 * ms_per_day + 23 * 3600000) True 60,
        history_item ''4'' ''Walk'' ''Physical'' (4 * ms_per_day + 1 * 3600000) True 60]"

text \<open>The log of the category scenario: two physical items, the second not completed, and
  one mindfulness item.\<close>

definition scenario_log :: "ActivityHistoryItem list" where
  "scenario_log =
     [history_item ''1'' ''Physical Stretch'' ''Physical'' (noon 0) True 30,
      history_item ''2'' ''Physical Run'' ''Physical'' (noon 1) False 0,
      history_item ''3'' ''Mindfulness Breathing'' ''Mindfulness'' (noon 2) True 15]"

definition stretch :: Activity where
  "stretch =
     \<lparr>id_act = ''a1'', title = ''Physical Stretch'', description = ''Stretch for a minute'',
      duration_act = 60, difficulty = ''beginner'', categories = [''Physical''],
      steps = [''Stand'', ''Reach''], benefits = [''Calm''], category_act = Some ''Physical''\<rparr>"

definition empty_storage :: local_storage where
  "empty_storage =
     \<lparr>ls_sessionId = None, ls_activityHistory = None, ls_activityProgress = None,
      ls_userPreferences = None\<rparr>"

text \<open>
  An environment whose catalogue serves \<open>stretch\<close> on every request, whose other calls
  resolve, and whose clock advances by one second per reading from \<open>1700000000000\<close>.
\<close>

definition serving_env :: env where
  "serving_env =
     \<lparr>clock = (\<lambda>n. 1700000000000 + 1000 * int n),
      getActivity_api = (\<lambda>n i. if i = ''a1'' then Resolved (Some stretch) else Resolved None),
      completeActivity_api = (\<lambda>n i sid d. Resolved ()),
      getSession_api =
        (\<lambda>n sid. Resolved \<lparr>session_id = sid, user_id = ''u1'', preferences_sr = defaultPreferences,
                             activity_history = []\<rparr>),
      createSession_api = (\<lambda>n u. Resolved ''s1'')\<rparr>"

text \<open>The same environment, except that only the first request reaches the server.\<close>

definition offline_after_first :: env where
  "offline_after_first =
     serving_env\<lparr>getActivity_api :=
       (\<lambda>n i. if n = 0 then getActivity_api serving_env n i else Rejected (Some ''Network Error'')),
       getSession_api := (\<lambda>n sid. Rejected (Some ''Network Error''))\<rparr>"

text \<open>
  The state in which \<open>startActivity\<close> leaves a freshly mounted provider when the first
  request is served and the second is not: one start record, and the error of the second
  request.
\<close>

definition started_state :: app_state where
  "started_state =
     \<lparr>sessionId = None, preferences = defaultPreferences, activeActivity = Some stretch,
      activityHistory = [start_record stretch 1700000000000 1700000001000],
      isLoading = False, error = Some ''Network Error'', activityProgress = [],
      startTime = Some 1700000000000, completedSteps = [], localStorage = empty_storage,
      clock_reads = 2, requests = 2\<rparr>"

text \<open>A local storage that holds a session id and a snapshot of one completed walk.\<close>

definition saved_storage :: local_storage where
  "saved_storage =
     \<lparr>ls_sessionId = Some ''s1'',
      ls_activityHistory = Some (Parsed (walks_at_noon [0])),
      ls_activityProgress = Some (Parsed [(''a1'', 1)]),
      ls_userPreferences = Some (Parsed (defaultPreferences\<lparr>notifications := False\<rparr>))\<rparr>"



section \<open>Properties\<close>

subsection \<open>Day differences and the streak loop\<close>

lemma int_div_bounds:
  assumes "0 < (m::int)"
  shows "x div m = d \<longleftrightarrow> d * m \<le> x \<and> x < d * m + m"
proof
  assume "x div m = d"
  moreover have "x = (x div m) * m + x mod m" by simp
  moreover have "0 \<le> x mod m" "x mod m < m" using assms by simp_all
  ultimately show "d * m \<le> x \<and> x < d * m + m" by auto
next
  assume b: "d * m \<le> x \<and> x < d * m + m"
  define r where "r = x - d * m"
  have r: "0 \<le> r" "r < m" using b by (simp_all add: r_def)
  have "x = r + d * m" by (simp add: r_def)
  then have "x div m = (r + d * m) div m" by simp
  also have "\<dots> = r div m + d" using assms by simp
  also have "r div m = 0" using r by simp
  finally show "x div m = d" by simp
qed

lemma int_div_le_iff:
  assumes "0 < (m::int)"
  shows "x div m \<le> d \<longleftrightarrow> x < d * m + m"
proof -
  have e: "x div m * m \<le> x \<and> x < x div m * m + m"
    using int_div_bounds [OF assms, of x "x div m"] by simp
  show ?thesis
  proof
    assume "x div m \<le> d"
    then have "x div m * m \<le> d * m" using assms by simp
    then show "x < d * m + m" using e by linarith
  next
    assume u: "x < d * m + m"
    show "x div m \<le> d"
    proof (rule ccontr)
      assume "\<not> x div m \<le> d"
      then have "d + 1 \<le> x div m" by simp
      then have "(d + 1) * m \<le> x div m * m" using assms by (simp only: mult_le_cancel_right) simp
      then show False using e u by (simp add: algebra_simps)
    qed
  qed
qed

lemma dayDiff_le_1: "dayDiff p t \<le> 1 \<longleftrightarrow> p - t < 2 * ms_per_day"
  unfolding dayDiff_def using int_div_le_iff [of ms_per_day "p - t" 1]
  by (simp add: ms_per_day_def)

lemma day_of_bounds:
  "day_of tz t = d \<longleftrightarrow> d * ms_per_day \<le> t + tz \<and> t + tz < d * ms_per_day + ms_per_day"
  unfolding day_of_def by (rule int_div_bounds) (simp add: ms_per_day_def)

lemma streak_step_close:
  assumes "dayDiff (sv_previousDate v) (start_time a) \<le> 1"
    and "sv_currentStreak v = sv_longestStreak v"
  shows "sv_currentStreak (streak_step v a) = sv_currentStreak v + 1"
    and "sv_longestStreak (streak_step v a) = sv_currentStreak v + 1"
    and "sv_previousDate (streak_step v a) = start_time a"
  using assms by (simp_all add: streak_step_def Let_def)

lemma streak_step_far:
  assumes "\<not> dayDiff (sv_previousDate v) (start_time a) \<le> 1"
  shows "streak_step v a = v\<lparr>sv_currentStreak := 1, sv_previousDate := start_time a\<rparr>"
  using assms by (simp add: streak_step_def Let_def)

lemma streak_loop_Cons: "streak_loop v (a # as) = streak_loop (streak_step v a) as"
  by (simp add: streak_loop_def)

lemma streak_loop_Nil: "streak_loop v [] = v"
  by (simp add: streak_loop_def)

lemma streak_loop_close:
  "close_chain (sv_previousDate v) as \<Longrightarrow> sv_currentStreak v = sv_longestStreak v \<Longrightarrow>
   sv_currentStreak (streak_loop v as) = sv_currentStreak v + length as \<and>
   sv_longestStreak (streak_loop v as) = sv_currentStreak v + length as"
proof (induction as arbitrary: v)
  case Nil
  then show ?case by (simp add: streak_loop_Nil)
next
  case (Cons a as)
  have d: "dayDiff (sv_previousDate v) (start_time a) \<le> 1"
    and c: "close_chain (start_time a) as"
    using Cons.prems(1) by simp_all
  note st = streak_step_close [OF d Cons.prems(2)]
  have "close_chain (sv_previousDate (streak_step v a)) as" using c st(3) by simp
  moreover have "sv_currentStreak (streak_step v a) = sv_longestStreak (streak_step v a)"
    using st by simp
  ultimately have "sv_currentStreak (streak_loop (streak_step v a) as)
        = sv_currentStreak (streak_step v a) + length as \<and>
      sv_longestStreak (streak_loop (streak_step v a) as)
        = sv_currentStreak (streak_step v a) + length as"
    by (rule Cons.IH)
  then show ?case using st(1) by (simp add: streak_loop_Cons)
qed

lemma same_day_close_chain:
  "day_of tz p = d \<Longrightarrow> list_all (\<lambda>a. day_of tz (start_time a) = d) as \<Longrightarrow> close_chain p as"
proof (induction as arbitrary: p)
  case Nil
  then show ?case by simp
next
  case (Cons a as)
  have a: "day_of tz (start_time a) = d" and r: "list_all (\<lambda>a. day_of tz (start_time a) = d) as"
    using Cons.prems(2) by simp_all
  have "dayDiff p (start_time a) \<le> 1"
    using Cons.prems(1) a unfolding dayDiff_le_1 day_of_bounds by linarith
  then show ?case using Cons.IH [OF a r] by simp
qed

lemma list_all_sortedActivities:
  "list_all P (sortedActivities hist) = list_all P hist"
  by (simp add: sortedActivities_def list_all_iff)

lemma length_sortedActivities: "length (sortedActivities hist) = length hist"
  by (simp add: sortedActivities_def)

lemma getStreakInfo_Cons:
  "sortedActivities hist = first # rest \<Longrightarrow>
   getStreakInfo hist =
     \<lparr>currentStreak = sv_currentStreak (streak_loop (streak_init (start_time first)) (first # rest)),
      longestStreak = sv_longestStreak (streak_loop (streak_init (start_time first)) (first # rest)),
      lastActivityDate = Some (start_time first),
      streakStartDate = sv_streakStartDate (streak_loop (streak_init (start_time first)) (first # rest)),
      streakHistory = []\<rparr>"
  by (simp add: getStreakInfo_def streak_of_sorted_def Let_def)

text \<open>
  Claim C10. For every history log, empty or not, \<^verbatim>\<open>getStreakInfo\<close> returns the empty
  array as \<^verbatim>\<open>streakHistory\<close>: the array is created empty and nothing is ever pushed to it.
\<close>

theorem streakHistory_empty: "streakHistory (getStreakInfo hist) = []"
  by (simp add: getStreakInfo_def streak_of_sorted_def Let_def split: list.split)

text \<open>
  Claim C4, as the code has it. The loop takes the branch \<^verbatim>\<open>dayDiff <= 1\<close> for a pair of items
  on the same calendar day, and that branch increments the counter: a day difference of 0 does
  not break the streak, but it does count. The counter counts activities, not days, so a log
  whose items all lie on one calendar day (in any time zone \<open>tz\<close>) has
  \<^verbatim>\<open>currentStreak\<close> and \<^verbatim>\<open>longestStreak\<close> equal to the number of its items.
\<close>

theorem same_day_items_increment:
  assumes "hist \<noteq> []"
    and "list_all (\<lambda>a. day_of tz (start_time a) = d) hist"
  shows "currentStreak (getStreakInfo hist) = length hist \<and>
         longestStreak (getStreakInfo hist) = length hist"
proof -
  obtain first rest where s: "sortedActivities hist = first # rest"
    using assms(1) length_sortedActivities [of hist]
    by (cases "sortedActivities hist") auto
  have all: "list_all (\<lambda>a. day_of tz (start_time a) = d) (first # rest)"
    using assms(2) unfolding s [symmetric] list_all_sortedActivities .
  then have f: "day_of tz (start_time first) = d" by simp
  have "close_chain (sv_previousDate (streak_init (start_time first))) (first # rest)"
    using same_day_close_chain [OF f all] by (simp add: streak_init_def)
  moreover have "sv_currentStreak (streak_init (start_time first))
      = sv_longestStreak (streak_init (start_time first))"
    by (simp add: streak_init_def)
  ultimately have "sv_currentStreak (streak_loop (streak_init (start_time first)) (first # rest))
        = sv_currentStreak (streak_init (start_time first)) + length (first # rest) \<and>
      sv_longestStreak (streak_loop (streak_init (start_time first)) (first # rest))
        = sv_currentStreak (streak_init (start_time first)) + length (first # rest)"
    by (rule streak_loop_close)
  moreover have "length (first # rest) = length hist"
    using s length_sortedActivities [of hist] by simp
  ultimately show ?thesis
    unfolding getStreakInfo_Cons [OF s] by (simp add: streak_init_def)
qed

text \<open>
  Claim C4 as stated fails: two walks at noon of the same day give a streak of 2, although
  the log covers one calendar day.
\<close>

theorem same_day_counterexample:
  "map (day_of 0 \<circ> start_time) (walks_at_noon [0, 0]) = [0, 0] \<and>
   currentStreak (getStreakInfo (walks_at_noon [0, 0])) = 2 \<and>
   longestStreak (getStreakInfo (walks_at_noon [0, 0])) = 2"
  by code_simp

text \<open>
  The theorem at three walks on day 5.
\<close>

theorem same_day_items_increment_witness:
  "walks_at_noon [5, 5, 5] \<noteq> [] \<and>
   list_all (\<lambda>a. day_of 0 (start_time a) = 5) (walks_at_noon [5, 5, 5]) \<and>
   currentStreak (getStreakInfo (walks_at_noon [5, 5, 5])) = 3 \<and>
   longestStreak (getStreakInfo (walks_at_noon [5, 5, 5])) = 3"
proof -
  have n: "walks_at_noon [5, 5, 5] \<noteq> []" by (simp add: walks_at_noon_def)
  have a: "list_all (\<lambda>a. day_of 0 (start_time a) = 5) (walks_at_noon [5, 5, 5])"
    by (simp add: walks_at_noon_def history_item_def day_of_def noon_def ms_per_day_def)
  have l: "length (walks_at_noon [5, 5, 5]) = 3" by (simp add: walks_at_noon_def)
  show ?thesis using n a same_day_items_increment [OF n a] unfolding l by simp
qed

lemma filter_key_singleton:
  "distinct (map f zs) \<Longrightarrow> k \<in> set zs \<Longrightarrow> filter (\<lambda>x. f k = f x) zs = [k]"
proof (induction zs)
  case Nil
  then show ?case by simp
next
  case (Cons z zs)
  show ?case
  proof (cases "k = z")
    case True
    have "filter (\<lambda>x. f z = f x) zs = []"
      using Cons.prems(1) by (auto simp: filter_empty_conv)
    then show ?thesis using True by simp
  next
    case False
    then have kin: "k \<in> set zs" using Cons.prems(2) by simp
    then have "f k \<in> f ` set zs" by (rule imageI)
    then have "f k \<noteq> f z" using Cons.prems(1) by auto
    then show ?thesis using Cons.IH kin Cons.prems(1) by simp
  qed
qed

lemma sort_key_unique:
  assumes m: "mset xs = mset ys" and s: "sorted (map f ys)" and d: "distinct (map f ys)"
  shows "sort_key f xs = ys"
proof (rule properties_for_sort_key)
  show "mset ys = mset xs" using m by simp
  show "sorted (map f ys)" by (rule s)
  fix k assume k: "k \<in> set ys"
  have "mset (map f xs) = mset (map f ys)" using m by (metis mset_map)
  then have dx: "distinct (map f xs)" using d by (metis mset_eq_imp_distinct_iff)
  have kx: "k \<in> set xs" using k m by (metis mset_eq_setD)
  show "filter (\<lambda>x. f k = f x) ys = filter (\<lambda>x. f k = f x) xs"
    using filter_key_singleton [OF d k] filter_key_singleton [OF dx kx] by simp
qed

lemma sorted_three:
  assumes "start_time a0 < start_time a1" "start_time a1 < start_time a2"
    and "mset hist = {#a0, a1, a2#}"
  shows "sortedActivities hist = [a2, a1, a0]"
  unfolding sortedActivities_def
  by (rule sort_key_unique) (use assms in \<open>auto simp: add_mset_commute\<close>)

lemma sorted_four:
  assumes "start_time a0 < start_time a1" "start_time a1 < start_time a2"
    "start_time a2 < start_time a4"
    and "mset hist = {#a0, a1, a2, a4#}"
  shows "sortedActivities hist = [a4, a2, a1, a0]"
  unfolding sortedActivities_def
  by (rule sort_key_unique) (use assms in \<open>auto simp: add_mset_commute\<close>)

lemma dayDiff_self: "dayDiff t t \<le> 1"
  by (simp add: dayDiff_def)

text \<open>
  Claim C3, as the code has it. A log that holds one activity on each of the calendar days
  \<open>D\<close>, \<open>D + 1\<close>, \<open>D + 2\<close> (in any time zone \<open>tz\<close>, in any order) gives
  \<^verbatim>\<open>currentStreak = 3\<close>. The code measures a gap
  in elapsed periods of 24 hours, not in calendar days. When a further activity on day
  \<open>D + 4\<close> starts at least 48 hours after the one of day \<open>D + 2\<close>, the walk (latest first) resets
  its counter to 1 at the gap, \<^verbatim>\<open>longestStreak\<close> remains 3, and the counter then runs over
  the three older items, so the value returned as \<^verbatim>\<open>currentStreak\<close> is 3.
\<close>

theorem three_day_streak_and_gap:
  assumes d0: "day_of tz (start_time a0) = D"
    and d1: "day_of tz (start_time a1) = D + 1"
    and d2: "day_of tz (start_time a2) = D + 2"
    and three_items: "mset hist = {#a0, a1, a2#}"
  shows "currentStreak (getStreakInfo hist) = 3 \<and>
         (day_of tz (start_time a4) = D + 4 \<and> 2 * ms_per_day \<le> start_time a4 - start_time a2 \<and>
          mset hist' = add_mset a4 (mset hist) \<longrightarrow>
            longestStreak (getStreakInfo hist') = 3 \<and>
            currentStreak (getStreakInfo hist') = 3 \<and>
            sv_currentStreak (streak_loop (streak_init (start_time a4)) [a4, a2]) = 1)"
proof -
  have pos: "0 < ms_per_day" by (simp add: ms_per_day_def)
  have b0: "D * ms_per_day \<le> start_time a0 + tz"
      "start_time a0 + tz < D * ms_per_day + ms_per_day"
    using d0 unfolding day_of_bounds by simp_all
  have b1: "(D + 1) * ms_per_day \<le> start_time a1 + tz"
      "start_time a1 + tz < (D + 1) * ms_per_day + ms_per_day"
    using d1 unfolding day_of_bounds by simp_all
  have b2: "(D + 2) * ms_per_day \<le> start_time a2 + tz"
      "start_time a2 + tz < (D + 2) * ms_per_day + ms_per_day"
    using d2 unfolding day_of_bounds by simp_all
  have o01: "start_time a0 < start_time a1" and o12: "start_time a1 < start_time a2"
    using b0 b1 b2 by (simp_all add: algebra_simps)
  have c21: "dayDiff (start_time a2) (start_time a1) \<le> 1"
    and c10: "dayDiff (start_time a1) (start_time a0) \<le> 1"
    unfolding dayDiff_le_1 using b0 b1 b2 pos by (simp_all add: algebra_simps)
  have tail: "close_chain (start_time a2) [a1, a0]" using c21 c10 by simp
  have three: "currentStreak (getStreakInfo hist) = 3"
  proof -
    have "close_chain (sv_previousDate (streak_init (start_time a2))) [a2, a1, a0]"
      using tail dayDiff_self by (simp add: streak_init_def)
    moreover have "sv_currentStreak (streak_init (start_time a2))
        = sv_longestStreak (streak_init (start_time a2))"
      by (simp add: streak_init_def)
    ultimately have "sv_currentStreak (streak_loop (streak_init (start_time a2)) [a2, a1, a0])
        = sv_currentStreak (streak_init (start_time a2)) + length [a2, a1, a0]"
      using streak_loop_close by blast
    then show ?thesis
      unfolding getStreakInfo_Cons [OF sorted_three [OF o01 o12 three_items]]
      by (simp add: streak_init_def)
  qed
  have four: "longestStreak (getStreakInfo hist') = 3 \<and>
      currentStreak (getStreakInfo hist') = 3 \<and>
      sv_currentStreak (streak_loop (streak_init (start_time a4)) [a4, a2]) = 1"
    if gap: "2 * ms_per_day \<le> start_time a4 - start_time a2"
      and added: "mset hist' = add_mset a4 (mset hist)"
  proof -
    have o24: "start_time a2 < start_time a4" using gap pos by simp
    have four_items: "mset hist' = {#a0, a1, a2, a4#}"
      using added three_items by (simp add: add_mset_commute)
    have far: "\<not> dayDiff (start_time a4) (start_time a2) \<le> 1"
      unfolding dayDiff_le_1 using gap by simp
    define v1 where "v1 = streak_step (streak_init (start_time a4)) a4"
    have v1: "sv_currentStreak v1 = 1" "sv_longestStreak v1 = 1" "sv_previousDate v1 = start_time a4"
      unfolding v1_def
      using streak_step_close [of "streak_init (start_time a4)" a4] dayDiff_self
      by (simp_all add: streak_init_def)
    define v2 where "v2 = streak_step v1 a2"
    have v2eq: "v2 = v1\<lparr>sv_currentStreak := 1, sv_previousDate := start_time a2\<rparr>"
      unfolding v2_def using streak_step_far [of v1 a2] far v1(3) by simp
    have v2: "sv_currentStreak v2 = 1" "sv_longestStreak v2 = 1" "sv_previousDate v2 = start_time a2"
      using v1 by (simp_all add: v2eq)
    have "close_chain (sv_previousDate v2) [a1, a0]" using tail v2(3) by simp
    moreover have "sv_currentStreak v2 = sv_longestStreak v2" using v2 by simp
    ultimately have r: "sv_currentStreak (streak_loop v2 [a1, a0]) = sv_currentStreak v2 + length [a1, a0] \<and>
        sv_longestStreak (streak_loop v2 [a1, a0]) = sv_currentStreak v2 + length [a1, a0]"
      by (rule streak_loop_close)
    have unfold: "streak_loop (streak_init (start_time a4)) [a4, a2, a1, a0] = streak_loop v2 [a1, a0]"
      by (simp add: streak_loop_Cons v1_def v2_def)
    have mid: "streak_loop (streak_init (start_time a4)) [a4, a2] = v2"
      by (simp add: streak_loop_Cons streak_loop_Nil v1_def v2_def)
    show ?thesis
      unfolding getStreakInfo_Cons [OF sorted_four [OF o01 o12 o24 four_items]] unfold mid
      using r v2 by simp
  qed
  show ?thesis using three four by blast
qed

text \<open>
  The theorem at walks at noon of the days 0, 1, 2 and 4.
\<close>

theorem three_day_streak_and_gap_witness:
  "day_of 0 (start_time (walks_at_noon [0, 1, 2, 4] ! 0)) = 0 \<and>
   day_of 0 (start_time (walks_at_noon [0, 1, 2, 4] ! 1)) = 0 + 1 \<and>
   day_of 0 (start_time (walks_at_noon [0, 1, 2, 4] ! 2)) = 0 + 2 \<and>
   day_of 0 (start_time (walks_at_noon [0, 1, 2, 4] ! 3)) = 0 + 4 \<and>
   2 * ms_per_day \<le> start_time (walks_at_noon [0, 1, 2, 4] ! 3) - start_time (walks_at_noon [0, 1, 2, 4] ! 2) \<and>
   currentStreak (getStreakInfo (walks_at_noon [0, 1, 2])) = 3 \<and>
   longestStreak (getStreakInfo (walks_at_noon [0, 1, 2, 4])) = 3 \<and>
   currentStreak (getStreakInfo (walks_at_noon [0, 1, 2, 4])) = 3"
proof -
  let ?w = "walks_at_noon [0, 1, 2, 4]"
  have h0: "day_of 0 (start_time (?w ! 0)) = 0"
    and h1: "day_of 0 (start_time (?w ! 1)) = 0 + 1"
    and h2: "day_of 0 (start_time (?w ! 2)) = 0 + 2"
    and h4: "day_of 0 (start_time (?w ! 3)) = 0 + 4"
    and g: "2 * ms_per_day \<le> start_time (?w ! 3) - start_time (?w ! 2)"
    by (simp_all add: walks_at_noon_def history_item_def day_of_def noon_def ms_per_day_def)
  have m3: "mset (walks_at_noon [0, 1, 2]) = {#?w ! 0, ?w ! 1, ?w ! 2#}"
    by (simp add: walks_at_noon_def)
  have m4: "mset ?w = add_mset (?w ! 3) (mset (walks_at_noon [0, 1, 2]))"
    by (simp add: walks_at_noon_def)
  show ?thesis
    using three_day_streak_and_gap [OF h0 h1 h2 m3, of "?w ! 3" ?w] h0 h1 h2 h4 g m4
    by simp
qed

text \<open>
  Claim C3 as stated fails. With walks at noon of the days 0, 1, 2 and 4 the returned
  \<^verbatim>\<open>currentStreak\<close> is 3, not 1. With the activity of day 2 at 23:00 and that of day 4 at
  01:00 the gap is 26 hours, the day difference is 1, and \<^verbatim>\<open>longestStreak\<close> becomes 4.
\<close>

theorem three_day_gap_counterexample:
  "map (day_of 0 \<circ> start_time) (walks_at_noon [0, 1, 2, 4]) = [0, 1, 2, 4] \<and>
   currentStreak (getStreakInfo (walks_at_noon [0, 1, 2, 4])) = 3 \<and>
   currentStreak (getStreakInfo (walks_at_noon [0, 1, 2, 4])) \<noteq> 1 \<and>
   map (day_of 0 \<circ> start_time) late_then_early = [0, 1, 2, 4] \<and>
   longestStreak (getStreakInfo late_then_early) = 4"
  by code_simp

subsection \<open>The empty log\<close>

text \<open>
  Claim C1, at the empty log. \<^verbatim>\<open>getRecommendationStats\<close> divides the two counters without a
  guard: for the empty log it computes \<^verbatim>\<open>(0 / 0) * 100\<close>, and \<^verbatim>\<open>recommendationAccuracy\<close> is
  \<^verbatim>\<open>NaN\<close>, not 0. The counters and the two dictionaries are zero and empty.
\<close>

theorem empty_log_recommendation_accuracy:
  "getRecommendationStats api [] =
     \<lparr>totalRecommendations = 0, acceptedRecommendations = 0, recommendationAccuracy = NaN,
      categoryPreferences = [], timeBasedPreferences = []\<rparr>"
  by (simp add: getRecommendationStats_def js_div_def)

lemma entries_Nil: "entries [] = []"
  by (simp add: entries_def)

text \<open>
  The other four callbacks return zero and empty aggregates for the empty log;
  \<^verbatim>\<open>getActivityStats\<close> guards each of its quotients with the length of the divisor list.
\<close>

lemma empty_log_others:
  "getStreakInfo [] =
     \<lparr>currentStreak = 0, longestStreak = 0, lastActivityDate = None, streakStartDate = None,
      streakHistory = []\<rparr>"
  "getCategoryStats [] =
     \<lparr>categories_cs = [], mostFrequentCategory = ''None'', leastFrequentCategory = ''None'',
      categoryDistribution = []\<rparr>"
  "getTimeBasedStats api [] =
     \<lparr>dailyStats = [], weeklyStats = [], monthlyStats = [], bestTimeOfDay = ''unknown'',
      mostActiveDay = ''unknown''\<rparr>"
  "getActivityStats [] =
     \<lparr>totalActivities = 0, completedActivities = 0, totalDuration_all = 0,
      averageDuration_all = Num 0, mostFrequentCategory_all = ''None'', completionRate_all = Num 0,
      longestStreak_all = 0, currentStreak_all = 0, totalPoints = 0,
      averagePointsPerActivity = Num 0\<rparr>"
  by (simp_all add: getStreakInfo_def streak_of_sorted_def sortedActivities_def
      getCategoryStats_def getTimeBasedStats_def getActivityStats_def entries_by_count_desc_def
      entries_Nil first_key_or_def last_key_or_def)

subsection \<open>Category statistics\<close>

lemma obj_get_obj_set:
  "obj_get (obj_set m k v) k' = (if k' = k then Some v else obj_get m k')"
  by (induction m k v rule: obj_set.induct) (auto simp: obj_get_def)

lemma category_fold:
  "obj_get (foldl category_step [] hist) k =
     (if in_category k hist = [] then None else Some (entry_of (in_category k hist)))"
proof (induction hist rule: rev_induct)
  case Nil
  then show ?case by (simp add: in_category_def obj_get_def)
next
  case (snoc a hist)
  show ?case
  proof (cases "first_word (activity_title a) = k")
    case False
    then show ?thesis
      using snoc by (simp add: category_step_def Let_def obj_get_obj_set in_category_def)
  next
    case True
    show ?thesis
    proof (cases "in_category k hist = []")
      case e: True
      then show ?thesis
        using snoc True
        by (simp add: category_step_def Let_def obj_get_obj_set in_category_def entry_of_def)
    next
      case ne: False
      then show ?thesis
        using snoc True
        by (simp add: category_step_def Let_def obj_get_obj_set in_category_def entry_of_def
            add.commute)
    qed
  qed
qed

text \<open>
  For every log and every key with at least one item, the entry of the key: all items are
  grouped, completed or not, under the first word of their title; the completion rate is that
  of the last item of the group divided by the size of the group.
\<close>

lemma category_entry_general:
  "in_category k hist \<noteq> [] \<Longrightarrow>
   obj_get (categories_cs (getCategoryStats hist)) k = Some (entry_of (in_category k hist))"
  by (simp add: getCategoryStats_def Let_def category_fold)

text \<open>
  Claim C2, at the log of the scenario: a completed and then an uncompleted item of the
  category Physical, and a completed item of the category Mindfulness. The entry of Physical has
  \<^verbatim>\<open>count = 2\<close>, and its \<^verbatim>\<open>completionRate\<close> is 0, not 0.5: the rate is overwritten at
  every item with \<^verbatim>\<open>(completed ? 1 : 0) / count\<close>, and the last Physical item is not completed.
\<close>

theorem category_scenario:
  "obj_get (categories_cs (getCategoryStats scenario_log)) ''Physical'' =
     Some \<lparr>count = 2, totalDuration = 30, averageDuration = Num 15, completionRate = Num 0,
           lastActivity = Some (noon 1)\<rparr> \<and>
   map category scenario_log = [''Physical'', ''Physical'', ''Mindfulness''] \<and>
   map completed scenario_log = [True, False, True] \<and>
   map duration scenario_log = [30, 0, 15]"
  by code_simp

subsection \<open>The activity life cycle\<close>

lemma nat_to_string_small: "n < 10 \<Longrightarrow> nat_to_string n = [digit_char n]"
  by (simp add: nat_to_string.simps)

lemma nat_to_string_large:
  "10 \<le> n \<Longrightarrow> nat_to_string n = nat_to_string (n div 10) @ [digit_char (n mod 10)]"
  by (subst nat_to_string.simps) simp

lemma digit_char_simps:
  "digit_char 0 = CHR ''0''" "digit_char 1 = CHR ''1''" "digit_char 2 = CHR ''2''"
  "digit_char 3 = CHR ''3''" "digit_char 4 = CHR ''4''" "digit_char 5 = CHR ''5''"
  "digit_char 6 = CHR ''6''" "digit_char 7 = CHR ''7''" "digit_char 8 = CHR ''8''"
  "digit_char 9 = CHR ''9''" "digit_char (Suc 0) = CHR ''1''"
  by (simp_all add: digit_char_def)

lemmas decimal_simps = int_to_string_def nat_to_string_small nat_to_string_large digit_char_simps

lemma startActivity_rejected:
  "getActivity_api e (requests s) i = Rejected thrown \<Longrightarrow>
   startActivity e i s =
     Some (fail_with ''Failed to start activity'' thrown (s\<lparr>isLoading := True, requests := requests s + 1\<rparr>))"
  by (subst startActivity.simps) simp

lemma startActivity_absent:
  "getActivity_api e (requests s) i = Resolved None \<Longrightarrow>
   startActivity e i s =
     Some (fail_with ''Failed to start activity'' (Some ''Activity not found'')
             (s\<lparr>isLoading := True, requests := requests s + 1\<rparr>))"
  by (subst startActivity.simps) simp

lemma startActivity_found:
  "getActivity_api e (requests s) i = Resolved (Some activity) \<Longrightarrow>
   startActivity e i s =
     Option.bind
       (startActivity e i
          (s\<lparr>isLoading := True,
             requests := requests s + 1,
             clock_reads := clock_reads s + 2,
             startTime := Some (clock e (clock_reads s)),
             activeActivity := Some activity,
             completedSteps := [],
             activityHistory :=
               activityHistory s
               @ [start_record activity (clock e (clock_reads s)) (clock e (clock_reads s + 1))]\<rparr>))
       (\<lambda>s'. Some (s'\<lparr>isLoading := False\<rparr>))"
  by (subst startActivity.simps) simp

text \<open>
  A catalogue that serves the activity on every request keeps \<^verbatim>\<open>startActivity\<close> calling
  itself: the operation does not return.
\<close>

lemma startActivity_never_returns:
  assumes "\<And>n. \<exists>a. getActivity_api e n i = Resolved (Some a)"
  shows "startActivity e i s = None"
proof (rule ccontr)
  assume "startActivity e i s \<noteq> None"
  then obtain y where y: "startActivity e i s = Some y" by auto
  have "\<not> (\<forall>n. \<exists>a. getActivity_api e n i = Resolved (Some a))"
  proof (rule startActivity.raw_induct
      [where P = "\<lambda>e i s y. \<not> (\<forall>n. \<exists>a. getActivity_api e n i = Resolved (Some a))", OF _ y],
      goal_cases)
    case (1 rec e i s y)
    show ?case
    proof
      assume all: "\<forall>n. \<exists>a. getActivity_api e n i = Resolved (Some a)"
      then obtain a where a: "getActivity_api e (requests s) i = Resolved (Some a)" by blast
      from 1(2) a obtain s1 s2 where "rec e i s1 = Some s2"
        by (auto simp: bind_eq_Some_conv)
      from 1(1) [OF this] all show False by blast
    qed
  qed
  with assms show False by blast
qed

text \<open>
  Whenever \<^verbatim>\<open>startActivity\<close> returns, it returns through a failed request: the state it
  leaves carries an error message.
\<close>

lemma startActivity_returns_with_error:
  assumes "startActivity e i s = Some s'"
  shows "error s' \<noteq> None \<and> isLoading s' = False"
proof (rule startActivity.raw_induct
    [where P = "\<lambda>e i s s'. error s' \<noteq> None \<and> isLoading s' = False", OF _ assms], goal_cases)
  case (1 rec e i s s')
  show ?case
  proof (cases "getActivity_api e (requests s) i")
    case (Rejected thrown)
    with 1(2) show ?thesis by (auto simp: fail_with_def)
  next
    case (Resolved found)
    show ?thesis
    proof (cases found)
      case None
      with 1(2) Resolved show ?thesis by (auto simp: fail_with_def)
    next
      case (Some activity)
      with 1(2) Resolved obtain s1 s2 where r: "rec e i s1 = Some s2" and e: "s' = s2\<lparr>isLoading := False\<rparr>"
        by (auto simp: bind_eq_Some_conv)
      from 1(1) [OF r] e show ?thesis by simp
    qed
  qed
qed

text \<open>
  A completion that finds a history item with the id it is given, with a start time recorded
  and the server in reach, appends one completion record.
\<close>

lemma completeActivity_appends:
  assumes "find (\<lambda>a. id_item a = activityId) (activityHistory s) = Some found"
    and "startTime s = Some started"
    and "completeActivity_api e (requests s) activityId
           (stored_session_or_default (localStorage s))
           (round_seconds (clock e (clock_reads s) - started)) = Resolved u"
  shows "activityHistory (completeActivity e activityId moodLevel s) =
           activityHistory s
           @ [completion_record found started (clock e (clock_reads s))
                (clock e (clock_reads s + 1)) moodLevel]"
  using assms by (simp add: completeActivity_def Let_def)

lemma completion_record_fields:
  "completed (completion_record found started ended now moodLevel) = True"
  "completed_at (completion_record found started ended now moodLevel) = Some ended"
  "activity_id (completion_record found started ended now moodLevel) = id_item found"
  "activity_title (completion_record found started ended now moodLevel) = activity_title found"
  "category (completion_record found started ended now moodLevel) = category found"
  by (simp_all add: completion_record_def)

lemma start_record_fields:
  "activity_id (start_record activity started now) = id_act activity"
  "activity_title (start_record activity started now) = title activity"
  "category (start_record activity started now) = category_of activity"
  "completed (start_record activity started now) = False"
  "completed_at (start_record activity started now) = None"
  by (simp_all add: start_record_def)

lemma start_offline:
  "startActivity offline_after_first ''a1'' (initial_state empty_storage) = Some started_state"
proof -
  let ?s0 = "initial_state empty_storage"
  let ?s1 = "?s0\<lparr>isLoading := True, requests := requests ?s0 + 1,
     clock_reads := clock_reads ?s0 + 2,
     startTime := Some (clock offline_after_first (clock_reads ?s0)),
     activeActivity := Some stretch, completedSteps := [],
     activityHistory := activityHistory ?s0
       @ [start_record stretch (clock offline_after_first (clock_reads ?s0))
            (clock offline_after_first (clock_reads ?s0 + 1))]\<rparr>"
  have f: "getActivity_api offline_after_first (requests ?s0) ''a1'' = Resolved (Some stretch)"
    by (simp add: offline_after_first_def serving_env_def initial_state_def)
  have r: "getActivity_api offline_after_first (requests ?s1) ''a1'' = Rejected (Some ''Network Error'')"
    by (simp add: offline_after_first_def serving_env_def initial_state_def)
  have "startActivity offline_after_first ''a1'' ?s0
      = Option.bind (startActivity offline_after_first ''a1'' ?s1) (\<lambda>s'. Some (s'\<lparr>isLoading := False\<rparr>))"
    by (rule startActivity_found [OF f])
  also have "\<dots> = Some started_state"
    unfolding startActivity_rejected [OF r]
    by (simp add: fail_with_def started_state_def initial_state_def offline_after_first_def
        serving_env_def)
  finally show ?thesis .
qed

text \<open>
  Claim C6. When no history item has the id passed to \<^verbatim>\<open>completeActivity\<close>, or no start
  time is recorded, the operation stores the error message
  \<^verbatim>\<open>'Activity not found or not started'\<close> in the error state, leaves the history log as it
  was, sends no request and ends with \<^verbatim>\<open>isLoading = false\<close>.
\<close>

theorem complete_without_start_fails:
  assumes "find (\<lambda>a. id_item a = activityId) (activityHistory s) = None \<or> startTime s = None"
  shows "error (completeActivity e activityId moodLevel s) = Some ''Activity not found or not started'' \<and>
         activityHistory (completeActivity e activityId moodLevel s) = activityHistory s \<and>
         requests (completeActivity e activityId moodLevel s) = requests s \<and>
         isLoading (completeActivity e activityId moodLevel s) = False"
  using assms by (auto simp: completeActivity_def fail_with_def split: option.splits)

text \<open>
  The theorem at a freshly mounted provider, whose log is empty and whose start time is not set.
\<close>

theorem complete_without_start_fails_witness:
  "(find (\<lambda>a. id_item a = ''a1'') (activityHistory (initial_state empty_storage)) = None \<or>
      startTime (initial_state empty_storage) = None) \<and>
   error (completeActivity serving_env ''a1'' 3 (initial_state empty_storage))
     = Some ''Activity not found or not started'' \<and>
   activityHistory (completeActivity serving_env ''a1'' 3 (initial_state empty_storage)) = []"
proof -
  have h: "find (\<lambda>a. id_item a = ''a1'') (activityHistory (initial_state empty_storage)) = None \<or>
      startTime (initial_state empty_storage) = None"
    by (simp add: initial_state_def)
  show ?thesis
    using h complete_without_start_fails [OF h, of serving_env 3]
    by (simp add: initial_state_def)
qed

text \<open>
  Claim C5, at \<^verbatim>\<open>startActivity('a1')\<close> followed by \<^verbatim>\<open>completeActivity('a1', 3)\<close> on a
  freshly mounted provider. While the catalogue answers, \<^verbatim>\<open>startActivity\<close> does not return.
  When the second request fails it returns with one start record, whose id is the reading of
  the clock; \<^verbatim>\<open>completeActivity\<close> then looks for a history item whose id is \<^verbatim>\<open>'a1'\<close>,
  finds none, stores the error and appends nothing: the log has length 1 and no completed item.
\<close>

theorem start_then_complete_same_id:
  "startActivity serving_env ''a1'' (initial_state empty_storage) = None \<and>
   startActivity offline_after_first ''a1'' (initial_state empty_storage) = Some started_state \<and>
   activityHistory (completeActivity offline_after_first ''a1'' 3 started_state)
     = [start_record stretch 1700000000000 1700000001000] \<and>
   filter completed (activityHistory (completeActivity offline_after_first ''a1'' 3 started_state)) = [] \<and>
   error (completeActivity offline_after_first ''a1'' 3 started_state)
     = Some ''Activity not found or not started''"
proof -
  have "\<exists>a. getActivity_api serving_env n ''a1'' = Resolved (Some a)" for n
    by (simp add: serving_env_def)
  then have never: "startActivity serving_env ''a1'' (initial_state empty_storage) = None"
    by (rule startActivity_never_returns)
  have miss: "find (\<lambda>a. id_item a = ''a1'') (activityHistory started_state) = None \<or>
      startTime started_state = None"
    by (simp add: started_state_def start_record_def decimal_simps)
  have "completeActivity offline_after_first ''a1'' 3 started_state
      = fail_with ''Failed to complete activity'' (Some ''Activity not found or not started'')
          (started_state\<lparr>isLoading := True\<rparr>)"
    using miss by (auto simp: completeActivity_def split: option.splits)
  then show ?thesis
    using never start_offline
    by (simp add: fail_with_def started_state_def start_record_def)
qed

text \<open>
  Claim C7, at a completion that finds the start record (the caller passes the id of the
  record). The completion record takes its \<^verbatim>\<open>activity_id\<close> from the \<^verbatim>\<open>id\<close> of the start
  record, not from its \<^verbatim>\<open>activity_id\<close>: the log then holds the activity ids \<^verbatim>\<open>'a1'\<close> and
  \<^verbatim>\<open>'1700000001000'\<close>, while the definition fetched at the start has the id \<^verbatim>\<open>'a1'\<close>.
\<close>

theorem completion_record_activity_id:
  "map activity_id (activityHistory (completeActivity offline_after_first ''1700000001000'' 3 started_state))
     = [''a1'', ''1700000001000''] \<and>
   map completed (activityHistory (completeActivity offline_after_first ''1700000001000'' 3 started_state))
     = [False, True] \<and>
   id_act stretch = ''a1''"
  by (simp add: completeActivity_def started_state_def start_record_def completion_record_def
      offline_after_first_def serving_env_def stretch_def decimal_simps Let_def)

subsection \<open>Session initialisation\<close>

text \<open>
  Claim C8, as the code has it. When a session id is stored and the fetch of the session
  fails, \<^verbatim>\<open>initializeSession\<close> stores the message of the failure in the error state, ends
  with \<^verbatim>\<open>isLoading = false\<close> and returns normally. It does not read the stored snapshot: the
  history, the progress map and the preferences keep the values they had in memory, and the
  local storage is not touched.
\<close>

theorem initialize_fetch_failure:
  assumes "ls_sessionId (localStorage s) = Some sid" and "sid \<noteq> []"
    and "getSession_api e (requests s) sid = Rejected thrown"
  shows "activityHistory (initializeSession e s) = activityHistory s \<and>
         activityProgress (initializeSession e s) = activityProgress s \<and>
         preferences (initializeSession e s) = preferences s \<and>
         localStorage (initializeSession e s) = localStorage s \<and>
         error (initializeSession e s)
           = Some (case thrown of Some msg \<Rightarrow> msg | None \<Rightarrow> ''Failed to initialize session'') \<and>
         isLoading (initializeSession e s) = False"
  using assms by (simp add: initializeSession_def fail_with_def)

text \<open>
  The theorem at a freshly mounted provider over a storage with a session id and a snapshot,
  with the server out of reach.
\<close>

theorem initialize_fetch_failure_witness:
  "ls_sessionId (localStorage (initial_state saved_storage)) = Some ''s1'' \<and> ''s1'' \<noteq> [] \<and>
   getSession_api offline_after_first (requests (initial_state saved_storage)) ''s1''
     = Rejected (Some ''Network Error'') \<and>
   activityHistory (initializeSession offline_after_first (initial_state saved_storage)) = [] \<and>
   error (initializeSession offline_after_first (initial_state saved_storage)) = Some ''Network Error'' \<and>
   isLoading (initializeSession offline_after_first (initial_state saved_storage)) = False"
proof -
  have a: "ls_sessionId (localStorage (initial_state saved_storage)) = Some ''s1''"
    by (simp add: initial_state_def saved_storage_def)
  have b: "''s1'' \<noteq> []" by simp
  have c: "getSession_api offline_after_first (requests (initial_state saved_storage)) ''s1''
      = Rejected (Some ''Network Error'')"
    by (simp add: offline_after_first_def)
  show ?thesis
    using a c initialize_fetch_failure [OF a b c]
    by (simp add: initial_state_def)
qed

text \<open>
  Claim C8 as stated fails: the storage holds a snapshot of one walk, a progress map and
  preferences with notifications off; after the failed fetch the history and the progress map
  are empty and the preferences are the defaults.
\<close>

theorem initialize_no_fallback_counterexample:
  "ls_activityHistory saved_storage = Some (Parsed (walks_at_noon [0])) \<and>
   length (walks_at_noon [0]) = 1 \<and>
   activityHistory (initializeSession offline_after_first (initial_state saved_storage)) = [] \<and>
   activityProgress (initializeSession offline_after_first (initial_state saved_storage)) = [] \<and>
   preferences (initializeSession offline_after_first (initial_state saved_storage)) = defaultPreferences \<and>
   ls_userPreferences saved_storage \<noteq> Some (Parsed defaultPreferences)"
  by (simp add: initializeSession_def initial_state_def saved_storage_def offline_after_first_def
      fail_with_def walks_at_noon_def defaultPreferences_def)

text \<open>
  The stored snapshot is loaded after a fetch that succeeds.
\<close>

lemma initialize_success_loads_snapshot:
  "activityHistory (initializeSession serving_env (initial_state saved_storage)) = walks_at_noon [0]"
  by (simp add: initializeSession_def initial_state_def saved_storage_def serving_env_def
      loadSavedData_def)

subsection \<open>The callbacks among the shared objects\<close>




































end
